theory Spec2Isabelle
  imports Complex_Main
begin

section \<open>Python values\<close>

text \<open>
  The agent (\<^verbatim>\<open>src/scripts/command_listener.py\<close>) handles JSON-shaped Python values:
  command rows, handler arguments and handler results. A \<^verbatim>\<open>dict\<close> keeps insertion
  order, so it is an association list; its keys are strings. A string is the list of
  its characters as the agent's encoding stores them; what the Unicode-aware
  \<^verbatim>\<open>str.lower()\<close> makes of it comes from the surroundings.
\<close>

text \<open>
  A \<^verbatim>\<open>float\<close>: \<^verbatim>\<open>json.loads\<close> yields \<^verbatim>\<open>inf\<close> for a literal beyond the range
  (\<^verbatim>\<open>1e400\<close>) and accepts \<^verbatim>\<open>Infinity\<close>, \<^verbatim>\<open>-Infinity\<close> and \<^verbatim>\<open>NaN\<close>.
\<close>

datatype pyfloat = Finite real | PosInf | NegInf | NaN

datatype pyval =
    PNone
  | PBool bool
  | PInt int
  | PFloat pyfloat
  | PStr string
  | PList "pyval list"
  | PDict "(string \<times> pyval) list"

type_synonym pydict = "(string \<times> pyval) list"

text \<open>Python truthiness, as \<^verbatim>\<open>if x:\<close> and \<^verbatim>\<open>not x\<close> test it.\<close>

fun py_truthy :: "pyval \<Rightarrow> bool" where
  "py_truthy PNone = False"
| "py_truthy (PBool b) = b"
| "py_truthy (PInt i) = (i \<noteq> 0)"
| "py_truthy (PFloat f) = (f \<noteq> Finite 0)"
| "py_truthy (PStr s) = (s \<noteq> [])"
| "py_truthy (PList xs) = (xs \<noteq> [])"
| "py_truthy (PDict d) = (d \<noteq> [])"

fun type_name :: "pyval \<Rightarrow> string" where
  "type_name PNone = ''NoneType''"
| "type_name (PBool b) = ''bool''"
| "type_name (PInt i) = ''int''"
| "type_name (PFloat r) = ''float''"
| "type_name (PStr s) = ''str''"
| "type_name (PList xs) = ''list''"
| "type_name (PDict d) = ''dict''"

text \<open>
  \<^verbatim>\<open>d[k] = v\<close>: an existing key keeps its position, a new key goes last.
\<close>

fun dict_set :: "pydict \<Rightarrow> string \<Rightarrow> pyval \<Rightarrow> pydict" where
  "dict_set [] k v = [(k, v)]"
| "dict_set ((k', v') # d) k v = (if k' = k then (k, v) # d else (k', v') # dict_set d k v)"

text \<open>\<^verbatim>\<open>d.get(k)\<close> on a dictionary: \<^verbatim>\<open>None\<close> for a missing key.\<close>

definition dict_get :: "pydict \<Rightarrow> string \<Rightarrow> pyval" where
  "dict_get d k = (case map_of d k of Some v \<Rightarrow> v | None \<Rightarrow> PNone)"

subsection \<open>Strings and numbers\<close>

text \<open>\<^verbatim>\<open>str(n)\<close> for an integer: its decimal digits.\<close>

definition digit_char :: "nat \<Rightarrow> char" where
  "digit_char d = ''0123456789'' ! (d mod 10)"

function str_nat :: "nat \<Rightarrow> string" where
  "str_nat n = (if n < 10 then [digit_char n] else str_nat (n div 10) @ [digit_char (n mod 10)])"
  by pat_completeness auto
termination
  by (relation "measure (\<lambda>n. n)") auto

declare str_nat.simps [simp del]

definition str_int :: "int \<Rightarrow> string" where
  "str_int i = (if i < 0 then ''-'' @ str_nat (nat (- i)) else str_nat (nat i))"

text \<open>\<^verbatim>\<open>sep.join(xs)\<close>.\<close>

fun str_join :: "string \<Rightarrow> string list \<Rightarrow> string" where
  "str_join sep [] = []"
| "str_join sep [x] = x"
| "str_join sep (x # y # ys) = x @ sep @ str_join sep (y # ys)"

text \<open>\<^verbatim>\<open>int(x)\<close> on a finite float truncates towards zero.\<close>

definition py_trunc :: "real \<Rightarrow> int" where
  "py_trunc r = (if 0 \<le> r then \<lfloor>r\<rfloor> else \<lceil>r\<rceil>)"

section \<open>Exceptions and handler outcomes\<close>

text \<open>
  The exceptions the code can meet: a missing key (\<^verbatim>\<open>command['id']\<close>), a missing
  attribute (\<^verbatim>\<open>.lower()\<close> or \<^verbatim>\<open>.get\<close> on a value of the wrong type), a failed
  \<^verbatim>\<open>int()\<close> (\<^verbatim>\<open>ValueError\<close>, \<^verbatim>\<open>TypeError\<close>, and \<^verbatim>\<open>OverflowError\<close> for an
  infinite float), and anything an external collaborator (camera, sound device,
  remote store, operating system) raises, which carries its message.
\<close>

datatype exn =
    KeyError string
  | AttributeError string string
  | ValueError string
  | TypeError string
  | OverflowError string
  | ExternalError string

text \<open>\<^verbatim>\<open>str(e)\<close>, as the f-strings of the log calls and the failure results use it.\<close>

fun exn_str :: "exn \<Rightarrow> string" where
  "exn_str (KeyError k) = [CHR 0x27] @ k @ [CHR 0x27]"
| "exn_str (AttributeError ty a) =
     [CHR 0x27] @ ty @ [CHR 0x27] @ '' object has no attribute '' @ [CHR 0x27] @ a @ [CHR 0x27]"
| "exn_str (ValueError m) = m"
| "exn_str (TypeError m) = m"
| "exn_str (OverflowError m) = m"
| "exn_str (ExternalError m) = m"

text \<open>A call of a handler returns a result dictionary or raises.\<close>

datatype outcome = Returns pydict | Raises exn

text \<open>
  The failure result \<^verbatim>\<open>{'success': False, 'error': msg}\<close>, which a handler builds
  in its \<^verbatim>\<open>except Exception as e\<close> branch with \<^verbatim>\<open>str(e)\<close> for the message.
\<close>

definition failure :: "string \<Rightarrow> pydict" where
  "failure msg = [(''success'', PBool False), (''error'', PStr msg)]"

section \<open>The agent's state and its surroundings\<close>

datatype log_entry = LogInfo string | LogError string

text \<open>
  Requests the agent issues to the remote store, in the order it issues them: the
  query for this device's pending commands, the completion write of
  \<^verbatim>\<open>update_command_result\<close>, the liveness write, the location write and a storage upload.
\<close>

datatype store_req =
    SelectPending pyval
  | UpdateCommand pyval pydict
  | UpdateDevice pyval
  | UpdateLocation pyval pydict
  | Upload string string

text \<open>Actions on the local devices.\<close>

datatype effect =
    CamOpen
  | CamRead
  | ImWrite string
  | CamRelease
  | Beep nat nat
  | SdRec int
  | SdStop
  | LockWorkStation
  | RunShell "string list"

text \<open>
  A background thread started by \<^verbatim>\<open>cmd_alarm\<close> (\<^verbatim>\<open>play_alarm\<close>) or
  \<^verbatim>\<open>cmd_findme\<close> (\<^verbatim>\<open>find_loop\<close>): its kind, the \<^verbatim>\<open>duration\<close> it closed over,
  its \<^verbatim>\<open>start\<close> time once it has read the clock, and whether it has returned.
\<close>

datatype task_kind = AlarmTask | FindTask

record task =
  kind :: task_kind
  duration :: int
  start :: "real option"
  finished :: bool

text \<open>
  The state: the fields of \<^verbatim>\<open>CommandListener\<close> the code reads and writes
  (\<^verbatim>\<open>device_id\<close>, \<^verbatim>\<open>running\<close>, \<^verbatim>\<open>running_commands\<close>), the log, the remote
  \<^verbatim>\<open>commands\<close> table, the requests sent to the remote store so far, the local
  actions so far and the background threads.
\<close>

record world =
  device_id :: pyval
  running :: bool
  running_commands :: "string \<rightharpoonup> bool"
  logs :: "log_entry list"
  commands :: "pydict list"
  requests :: "store_req list"
  effects :: "effect list"
  threads :: "task list"

text \<open>
  The surroundings, which the code does not control: library functions
  (\<^verbatim>\<open>str.lower\<close>, \<^verbatim>\<open>json.loads\<close>, \<^verbatim>\<open>json.dumps\<close>, \<^verbatim>\<open>repr\<close>, \<^verbatim>\<open>int\<close> on a
  string), the clock, and the external collaborators with their failures.
  \<open>store_fault n\<close> is the exception the remote tables (commands, devices) raise on
  the agent's \<open>n\<close>-th request, if that request goes to them and fails;
  \<open>upload_fault n\<close> is the same for the storage service; \<open>read_fault f\<close> is the
  exception of opening and reading the local file \<open>f\<close>, if that fails.
\<close>

record env =
  py_lower :: "string \<Rightarrow> string"
  json_loads :: "string \<Rightarrow> pyval option"
  json_dumps :: "pydict \<Rightarrow> string"
  py_repr :: "pyval \<Rightarrow> string"
  int_of_str :: "string \<Rightarrow> int option"
  store_fault :: "nat \<Rightarrow> string option"
  upload_fault :: "nat \<Rightarrow> string option"
  read_fault :: "string \<Rightarrow> string option"
  utcnow :: "nat \<Rightarrow> string"
  strftime_now :: "nat \<Rightarrow> string"
  public_url :: "string \<Rightarrow> string \<Rightarrow> string"
  host_status :: "exn + pydict"
  grab_fault :: "string option"
  cam_opened :: bool
  cam_ret :: "nat \<Rightarrow> bool"
  capture_fault :: "nat \<Rightarrow> string option"
  geo_lookup :: "exn + pydict"
  sensors_battery :: "exn + (pyval \<times> bool \<times> int) option"
  wifi_interfaces :: "exn + pydict"
  wmi_fields :: "exn + pydict"
  record_fault :: "string option"
  sd_stop_fault :: "string option"
  wifi_profiles :: "exn + string list"
  process_list :: "exn + pydict list"
  lock_fault :: "string option"
  shutdown_fault :: "string option"
  realtime_available :: bool

definition log_info :: "string \<Rightarrow> world \<Rightarrow> world" where
  "log_info m w = w\<lparr>logs := logs w @ [LogInfo m]\<rparr>"

definition log_error :: "string \<Rightarrow> world \<Rightarrow> world" where
  "log_error m w = w\<lparr>logs := logs w @ [LogError m]\<rparr>"

text \<open>\<^verbatim>\<open>self.running_commands.get(k)\<close> in a condition: absent and \<^verbatim>\<open>False\<close> are both falsy.\<close>

definition slot_active :: "world \<Rightarrow> string \<Rightarrow> bool" where
  "slot_active w k = (running_commands w k = Some True)"

definition set_slot :: "string \<Rightarrow> bool \<Rightarrow> world \<Rightarrow> world" where
  "set_slot k b w = w\<lparr>running_commands := (running_commands w)(k \<mapsto> b)\<rparr>"

section \<open>Helper methods\<close>

text \<open>
  \<^verbatim>\<open>args.get(k, default)\<close>: the handlers call it on whatever the dispatcher passes; a
  value that is not a dictionary has no \<^verbatim>\<open>get\<close>.
\<close>

definition py_get :: "pyval \<Rightarrow> string \<Rightarrow> pyval \<Rightarrow> exn + pyval" where
  "py_get a k dflt =
     (case a of
        PDict d \<Rightarrow> Inr (case map_of d k of Some v \<Rightarrow> v | None \<Rightarrow> dflt)
      | _ \<Rightarrow> Inl (AttributeError (type_name a) ''get''))"

text \<open>\<^verbatim>\<open>info.get(k, default)\<close> on a dictionary.\<close>

definition dict_get_default :: "pydict \<Rightarrow> string \<Rightarrow> pyval \<Rightarrow> pyval" where
  "dict_get_default d k dflt = (case map_of d k of Some v \<Rightarrow> v | None \<Rightarrow> dflt)"

text \<open>
  The built-in \<^verbatim>\<open>int(v)\<close>: it truncates a finite float and raises
  \<^verbatim>\<open>OverflowError\<close> on an infinite one and \<^verbatim>\<open>ValueError\<close> on \<^verbatim>\<open>nan\<close>.
\<close>

definition py_int :: "env \<Rightarrow> pyval \<Rightarrow> exn + int" where
  "py_int e v =
     (case v of
        PInt i \<Rightarrow> Inr i
      | PBool b \<Rightarrow> Inr (if b then 1 else 0)
      | PFloat f \<Rightarrow>
          (case f of
             Finite r \<Rightarrow> Inr (py_trunc r)
           | NaN \<Rightarrow> Inl (ValueError ''cannot convert float NaN to integer'')
           | _ \<Rightarrow> Inl (OverflowError ''cannot convert float infinity to integer''))
      | PStr s \<Rightarrow>
          (case int_of_str e s of
             Some i \<Rightarrow> Inr i
           | None \<Rightarrow>
               Inl (ValueError (''invalid literal for int() with base 10: '' @ py_repr e (PStr s))))
      | _ \<Rightarrow>
          Inl (TypeError
            (''int() argument must be a string, a bytes-like object or a real number, not ''
              @ [CHR 0x27] @ type_name v @ [CHR 0x27])))"

text \<open>\<^verbatim>\<open>int(args.get(k, dflt))\<close> and \<^verbatim>\<open>min(int(args.get(k, dflt)), cap)\<close>.\<close>

definition int_arg :: "env \<Rightarrow> pyval \<Rightarrow> string \<Rightarrow> int \<Rightarrow> exn + int" where
  "int_arg e args k dflt =
     (case py_get args k (PInt dflt) of Inl x \<Rightarrow> Inl x | Inr v \<Rightarrow> py_int e v)"

definition min_int_arg :: "env \<Rightarrow> pyval \<Rightarrow> string \<Rightarrow> int \<Rightarrow> int \<Rightarrow> exn + int" where
  "min_int_arg e args k dflt cap =
     (case int_arg e args k dflt of Inl x \<Rightarrow> Inl x | Inr n \<Rightarrow> Inr (min n cap))"

text \<open>\<^verbatim>\<open>str(v)\<close>, as an f-string formats a value.\<close>

definition py_str :: "env \<Rightarrow> pyval \<Rightarrow> string" where
  "py_str e v =
     (case v of
        PNone \<Rightarrow> ''None''
      | PBool b \<Rightarrow> (if b then ''True'' else ''False'')
      | PInt i \<Rightarrow> str_int i
      | PStr s \<Rightarrow> s
      | _ \<Rightarrow> py_repr e v)"

text \<open>
  \<^verbatim>\<open>upload_file\<close>: reads the file, then uploads it under
  \<^verbatim>\<open>{device_id}/{filename}\<close>; any failure is logged and the result is \<^verbatim>\<open>None\<close>.
  When the file cannot be read no request goes to the storage service.
  \<^verbatim>\<open>
  try:
      with open(filepath, 'rb') as f:
          data = f.read()
      path = f"{self.device_id}/{filename}"
      self.supabase.storage.from_(bucket).upload(path, data)
      url = self.supabase.storage.from_(bucket).get_public_url(path)
      return url
  except Exception as e:
      logger.error(f"Upload failed: {e}")
      return None
  \<close>
\<close>

definition upload_file :: "env \<Rightarrow> string \<Rightarrow> string \<Rightarrow> world \<Rightarrow> pyval \<times> world" where
  "upload_file e bucket filename w =
     (case read_fault e filename of
        Some m \<Rightarrow> (PNone, log_error (''Upload failed: '' @ m) w)
      | None \<Rightarrow>
          (let path = py_str e (device_id w) @ ''/'' @ filename;
               n = length (requests w);
               w1 = w\<lparr>requests := requests w @ [Upload bucket path]\<rparr>
           in case upload_fault e n of
                Some m \<Rightarrow> (PNone, log_error (''Upload failed: '' @ m) w1)
              | None \<Rightarrow> (PStr (public_url e bucket path), w1)))"

text \<open>\<^verbatim>\<open>update_device_location\<close>: one write to the devices table; a failure is logged.\<close>

definition update_device_location :: "env \<Rightarrow> pydict \<Rightarrow> world \<Rightarrow> world" where
  "update_device_location e location w =
     (let n = length (requests w);
          w1 = w\<lparr>requests := requests w @
                 [UpdateLocation (device_id w)
                    [(''last_location_lat'', dict_get location ''latitude''),
                     (''last_location_lon'', dict_get location ''longitude''),
                     (''last_location_city'', dict_get location ''city'')]]\<rparr>
      in case store_fault e n of
           Some m \<Rightarrow> log_error (''Failed to update location: '' @ m) w1
         | None \<Rightarrow> w1)"

text \<open>
  \<^verbatim>\<open>update_command_result\<close>, the Result Reporter: one write that sets the matching row
  to completed with the serialised result and the completion time; a failure is logged
  and not raised.
\<close>

definition complete_row :: "env \<Rightarrow> nat \<Rightarrow> pyval \<Rightarrow> pydict \<Rightarrow> pydict \<Rightarrow> pydict" where
  "complete_row e n command_id result row =
     (if map_of row ''id'' = Some command_id
      then dict_set
             (dict_set (dict_set row ''status'' (PStr ''completed''))
                ''result'' (PStr (json_dumps e result)))
             ''completed_at'' (PStr (utcnow e n))
      else row)"

definition update_command_result :: "env \<Rightarrow> pyval \<Rightarrow> pydict \<Rightarrow> world \<Rightarrow> world" where
  "update_command_result e command_id result w =
     (let n = length (requests w);
          w1 = w\<lparr>requests := requests w @ [UpdateCommand command_id result]\<rparr>
      in case store_fault e n of
           Some m \<Rightarrow> log_error (''Failed to update command result: '' @ m) w1
         | None \<Rightarrow> w1\<lparr>commands := map (complete_row e n command_id result) (commands w1)\<rparr>)"

text \<open>Starting a background thread.\<close>

definition spawn :: "task_kind \<Rightarrow> int \<Rightarrow> world \<Rightarrow> world" where
  "spawn k d w =
     w\<lparr>threads := threads w @ [\<lparr>kind = k, duration = d, start = None, finished = False\<rparr>]\<rparr>"

definition do_effect :: "effect \<Rightarrow> world \<Rightarrow> world" where
  "do_effect x w = w\<lparr>effects := effects w @ [x]\<rparr>"

section \<open>Command handlers\<close>

text \<open>
  Every handler takes the arguments and returns a result dictionary. What the operating
  system, the devices and the network answer comes from the surroundings.
\<close>

type_synonym handler = "env \<Rightarrow> pyval \<Rightarrow> world \<Rightarrow> outcome \<times> world"

text \<open>
  All handlers but \<^verbatim>\<open>cmd_stopfind\<close> and \<^verbatim>\<open>cmd_processes\<close> have the shape
  \<^verbatim>\<open>
  def cmd_x(self, args: dict) -> dict:
      try:
          body
      except Exception as e:
          return {'success': False, 'error': str(e)}
  \<close>
  The body returns a result or raises, in the state it has reached; the handler
  turns the exception into the failure result.
\<close>

definition try_except :: "handler \<Rightarrow> handler" where
  "try_except body e args w =
     (case body e args w of
        (Returns r, w') \<Rightarrow> (Returns r, w')
      | (Raises x, w') \<Rightarrow> (Returns (failure (exn_str x)), w'))"

definition cmd_status_body :: handler where
  "cmd_status_body e args w =
     (case host_status e of
        Inl x \<Rightarrow> (Raises x, w)
      | Inr facts \<Rightarrow> (Returns ((''success'', PBool True) # facts), w))"

definition cmd_status :: handler where
  "cmd_status = try_except cmd_status_body"

definition cmd_screenshot_body :: handler where
  "cmd_screenshot_body e args w =
     (let filename = ''screenshot_'' @ strftime_now e (length (requests w)) @ ''.png''
      in case grab_fault e of
           Some m \<Rightarrow> (Raises (ExternalError m), w)
         | None \<Rightarrow>
             (case upload_file e ''screenshots'' filename w of
                (url, w1) \<Rightarrow>
                  (Returns [(''success'', PBool True), (''message'', PStr ''Screenshot captured''),
                            (''filename'', PStr filename), (''url'', url)], w1)))"

definition cmd_screenshot :: handler where
  "cmd_screenshot = try_except cmd_screenshot_body"

text \<open>
  \<^verbatim>\<open>cmd_photo\<close>: \<^verbatim>\<open>count = min(int(args.get('count', 1)), 5)\<close>, then one
  \<^verbatim>\<open>cap.read()\<close> for each \<^verbatim>\<open>i in range(count)\<close>; a frame that was read is written
  and uploaded. An exception inside the loop leaves it at once.
\<close>

fun capture_loop :: "env \<Rightarrow> nat list \<Rightarrow> pyval list \<Rightarrow> world \<Rightarrow> (exn + pyval list) \<times> world" where
  "capture_loop e [] photos w = (Inr photos, w)"
| "capture_loop e (i # is) photos w =
     (let w1 = do_effect CamRead w in
      if cam_ret e i then
        (let filename = ''photo_'' @ strftime_now e (length (requests w1)) @ ''_''
                          @ str_nat (i + 1) @ ''.jpg'';
             w2 = do_effect (ImWrite filename) w1
         in case capture_fault e i of
              Some m \<Rightarrow> (Inl (ExternalError m), w2)
            | None \<Rightarrow>
                (case upload_file e ''photos'' filename w2 of
                   (url, w3) \<Rightarrow>
                     capture_loop e is
                       (photos @ [PDict [(''filename'', PStr filename), (''url'', url)]]) w3))
      else capture_loop e is photos w1)"

definition cmd_photo_body :: handler where
  "cmd_photo_body e args w =
     (case min_int_arg e args ''count'' 1 5 of
        Inl x \<Rightarrow> (Raises x, w)
      | Inr count \<Rightarrow>
          (let w1 = do_effect CamOpen w in
           if \<not> cam_opened e then (Returns (failure ''No webcam found''), w1)
           else
             (case capture_loop e [0 ..< nat count] [] w1 of
                (Inl x, w2) \<Rightarrow> (Raises x, w2)
              | (Inr photos, w2) \<Rightarrow>
                  (Returns [(''success'', PBool True),
                            (''message'', PStr (''Captured '' @ str_nat (length photos) @ '' photo(s)'')),
                            (''photos'', PList photos)],
                   do_effect CamRelease w2))))"

definition cmd_photo :: handler where
  "cmd_photo = try_except cmd_photo_body"

definition cmd_location_body :: handler where
  "cmd_location_body e args w =
     (case geo_lookup e of
        Inl x \<Rightarrow> (Raises x, w)
      | Inr data \<Rightarrow>
          (Returns (if dict_get data ''status'' = PStr ''success''
                    then [(''success'', PBool True),
                          (''latitude'', dict_get data ''lat''),
                          (''longitude'', dict_get data ''lon''),
                          (''city'', dict_get data ''city''),
                          (''region'', dict_get data ''regionName''),
                          (''country'', dict_get data ''country''),
                          (''isp'', dict_get data ''isp''),
                          (''ip'', dict_get data ''query''),
                          (''source'', PStr ''IP Geolocation'')]
                    else failure ''Could not determine location''), w))"

definition cmd_location :: handler where
  "cmd_location = try_except cmd_location_body"

definition cmd_battery_body :: handler where
  "cmd_battery_body e args w =
     (case sensors_battery e of
        Inl x \<Rightarrow> (Raises x, w)
      | Inr None \<Rightarrow>
          (Returns [(''success'', PBool True), (''percent'', PInt 100), (''plugged'', PBool True),
                    (''status'', PStr ''Desktop (No Battery)'')], w)
      | Inr (Some (percent, plugged, secsleft)) \<Rightarrow>
          (Returns [(''success'', PBool True), (''percent'', percent), (''plugged'', PBool plugged),
                    (''status'', PStr (if plugged then ''Charging'' else ''Discharging'')),
                    (''time_left'', PStr (if secsleft > 0
                                          then str_int (secsleft div 60) @ '' minutes''
                                          else ''N/A''))], w))"

definition cmd_battery :: handler where
  "cmd_battery = try_except cmd_battery_body"

definition cmd_wifiinfo_body :: handler where
  "cmd_wifiinfo_body e args w =
     (case wifi_interfaces e of
        Inl x \<Rightarrow> (Raises x, w)
      | Inr info \<Rightarrow>
          (Returns [(''success'', PBool True),
                    (''ssid'', dict_get_default info ''SSID'' (PStr ''Not connected'')),
                    (''bssid'', dict_get_default info ''BSSID'' (PStr ''N/A'')),
                    (''signal'', dict_get_default info ''Signal'' (PStr ''N/A'')),
                    (''radio_type'', dict_get_default info ''Radio type'' (PStr ''N/A'')),
                    (''authentication'', dict_get_default info ''Authentication'' (PStr ''N/A'')),
                    (''channel'', dict_get_default info ''Channel'' (PStr ''N/A''))], w))"

definition cmd_wifiinfo :: handler where
  "cmd_wifiinfo = try_except cmd_wifiinfo_body"

text \<open>\<^verbatim>\<open>cmd_sysinfo\<close> starts from \<^verbatim>\<open>info = self.cmd_status({})\<close>.\<close>

definition cmd_sysinfo_body :: handler where
  "cmd_sysinfo_body e args w =
     (case cmd_status e (PDict []) w of
        (Raises x, w1) \<Rightarrow> (Raises x, w1)
      | (Returns info, w1) \<Rightarrow>
          (case wmi_fields e of
             Inl x \<Rightarrow> (Raises x, w1)
           | Inr fs \<Rightarrow> (Returns (foldl (\<lambda>d (k, v). dict_set d k v) info fs), w1)))"

definition cmd_sysinfo :: handler where
  "cmd_sysinfo = try_except cmd_sysinfo_body"

definition cmd_audio_body :: handler where
  "cmd_audio_body e args w =
     (case min_int_arg e args ''duration'' 10 120 of
        Inl x \<Rightarrow> (Raises x, w)
      | Inr d \<Rightarrow>
          (let filename = ''audio_'' @ strftime_now e (length (requests w)) @ ''.wav'';
               w1 = log_info (''Recording audio for '' @ str_int d @ '' seconds...'') w;
               w2 = do_effect (SdRec (d * 44100)) w1
           in case record_fault e of
                Some m \<Rightarrow> (Raises (ExternalError m), w2)
              | None \<Rightarrow>
                  (case upload_file e ''audio'' filename w2 of
                     (url, w3) \<Rightarrow>
                       (Returns [(''success'', PBool True),
                                 (''message'', PStr (''Recorded '' @ str_int d @ '' seconds of audio'')),
                                 (''filename'', PStr filename), (''url'', url)], w3))))"

definition cmd_audio :: handler where
  "cmd_audio = try_except cmd_audio_body"

text \<open>
  \<^verbatim>\<open>cmd_alarm\<close> and \<^verbatim>\<open>cmd_findme\<close> set their slot to \<^verbatim>\<open>True\<close>, start the
  background thread and return at once.
\<close>

definition cmd_alarm_body :: handler where
  "cmd_alarm_body e args w =
     (case min_int_arg e args ''duration'' 10 60 of
        Inl x \<Rightarrow> (Raises x, w)
      | Inr d \<Rightarrow>
          (Returns [(''success'', PBool True),
                    (''message'', PStr (''Playing alarm for '' @ str_int d @ '' seconds''))],
           spawn AlarmTask d (set_slot ''alarm'' True w)))"

definition cmd_alarm :: handler where
  "cmd_alarm = try_except cmd_alarm_body"

definition cmd_findme_body :: handler where
  "cmd_findme_body e args w =
     (case min_int_arg e args ''duration'' 60 300 of
        Inl x \<Rightarrow> (Raises x, w)
      | Inr d \<Rightarrow>
          (case cmd_location e (PDict []) (spawn FindTask d (set_slot ''findme'' True w)) of
             (Raises x, w1) \<Rightarrow> (Raises x, w1)
           | (Returns location, w1) \<Rightarrow>
               (Returns [(''success'', PBool True),
                         (''message'', PStr (''Find Me active for '' @ str_int d @ '' seconds'')),
                         (''location'', PDict location)], w1)))"

definition cmd_findme :: handler where
  "cmd_findme = try_except cmd_findme_body"

text \<open>
  \<^verbatim>\<open>
  def cmd_stopfind(self, args: dict) -> dict:
      self.running_commands['findme'] = False
      return {'success': True, 'message': 'Find Me stopped'}
  \<close>
\<close>

definition cmd_stopfind :: handler where
  "cmd_stopfind e args w =
     (Returns [(''success'', PBool True), (''message'', PStr ''Find Me stopped'')],
      set_slot ''findme'' False w)"

text \<open>
  \<^verbatim>\<open>cmd_stop\<close>: each active slot is set to \<^verbatim>\<open>False\<close> and named in \<^verbatim>\<open>stopped\<close>;
  then \<^verbatim>\<open>sd.stop()\<close> is called and, unless it raises, \<^verbatim>\<open>'audio'\<close> is appended:
  \<^verbatim>\<open>
  try:
      sd.stop()
      stopped.append('audio')
  except:
      pass
  message = f"Stopped: {', '.join(stopped)}" if stopped else "No active commands to stop"
  \<close>
\<close>

definition cmd_stop_body :: handler where
  "cmd_stop_body e args w =
     (let (s1, w1) = (if slot_active w ''alarm''
                      then ([''alarm''], set_slot ''alarm'' False w) else ([], w));
          (s2, w2) = (if slot_active w1 ''findme''
                      then (s1 @ [''findme''], set_slot ''findme'' False w1) else (s1, w1));
          w3 = do_effect SdStop w2;
          stopped = (case sd_stop_fault e of None \<Rightarrow> s2 @ [''audio''] | Some m \<Rightarrow> s2);
          message = (if stopped \<noteq> [] then ''Stopped: '' @ str_join '', '' stopped
                     else ''No active commands to stop'')
      in (Returns [(''success'', PBool True), (''stopped'', PList (map PStr stopped)),
                   (''message'', PStr message)], w3))"

definition cmd_stop :: handler where
  "cmd_stop = try_except cmd_stop_body"

definition cmd_listnetworks_body :: handler where
  "cmd_listnetworks_body e args w =
     (case wifi_profiles e of
        Inl x \<Rightarrow> (Raises x, w)
      | Inr networks \<Rightarrow>
          (Returns [(''success'', PBool True), (''networks'', PList (map PStr networks)),
                    (''count'', PInt (int (length networks)))], w))"

definition cmd_listnetworks :: handler where
  "cmd_listnetworks = try_except cmd_listnetworks_body"

definition cmd_appusage_body :: handler where
  "cmd_appusage_body e args w =
     (case process_list e of
        Inl x \<Rightarrow> (Raises x, w)
      | Inr apps \<Rightarrow>
          (Returns [(''success'', PBool True), (''apps'', PList (map PDict (take 20 apps))),
                    (''total'', PInt (int (length apps)))], w))"

definition cmd_appusage :: handler where
  "cmd_appusage = try_except cmd_appusage_body"

text \<open>
  \<^verbatim>\<open>
  def cmd_processes(self, args: dict) -> dict:
      return self.cmd_appusage(args)
  \<close>
\<close>

definition cmd_processes :: handler where
  "cmd_processes e args w = cmd_appusage e args w"

definition cmd_lockscreen_body :: handler where
  "cmd_lockscreen_body e args w =
     (case lock_fault e of
        Some m \<Rightarrow> (Raises (ExternalError m), w)
      | None \<Rightarrow> (Returns [(''success'', PBool True), (''message'', PStr ''Workstation locked'')],
                 do_effect LockWorkStation w))"

definition cmd_lockscreen :: handler where
  "cmd_lockscreen = try_except cmd_lockscreen_body"

definition cmd_shutdown_body :: handler where
  "cmd_shutdown_body e args w =
     (case int_arg e args ''delay'' 60 of
        Inl x \<Rightarrow> (Raises x, w)
      | Inr delay \<Rightarrow>
          (case shutdown_fault e of
             Some m \<Rightarrow> (Raises (ExternalError m), w)
           | None \<Rightarrow>
               (Returns [(''success'', PBool True),
                         (''message'', PStr (''Shutdown scheduled in '' @ str_int delay @ '' seconds''))],
                do_effect (RunShell [''shutdown'', ''/s'', ''/t'', str_int delay]) w)))"

definition cmd_shutdown :: handler where
  "cmd_shutdown = try_except cmd_shutdown_body"

definition cmd_restart_body :: handler where
  "cmd_restart_body e args w =
     (case int_arg e args ''delay'' 60 of
        Inl x \<Rightarrow> (Raises x, w)
      | Inr delay \<Rightarrow>
          (case shutdown_fault e of
             Some m \<Rightarrow> (Raises (ExternalError m), w)
           | None \<Rightarrow>
               (Returns [(''success'', PBool True),
                         (''message'', PStr (''Restart scheduled in '' @ str_int delay @ '' seconds''))],
                do_effect (RunShell [''shutdown'', ''/r'', ''/t'', str_int delay]) w)))"

definition cmd_restart :: handler where
  "cmd_restart = try_except cmd_restart_body"

text \<open>The registry built in \<^verbatim>\<open>__init__\<close>: \<^verbatim>\<open>self.handlers\<close>.\<close>

definition handlers :: "string \<Rightarrow> handler option" where
  "handlers = map_of
     [(''status'', cmd_status),
      (''screenshot'', cmd_screenshot),
      (''photo'', cmd_photo),
      (''location'', cmd_location),
      (''battery'', cmd_battery),
      (''wifiinfo'', cmd_wifiinfo),
      (''sysinfo'', cmd_sysinfo),
      (''audio'', cmd_audio),
      (''alarm'', cmd_alarm),
      (''findme'', cmd_findme),
      (''stopfind'', cmd_stopfind),
      (''stop'', cmd_stop),
      (''listnetworks'', cmd_listnetworks),
      (''appusage'', cmd_appusage),
      (''processes'', cmd_processes),
      (''lockscreen'', cmd_lockscreen),
      (''shutdown'', cmd_shutdown),
      (''restart'', cmd_restart)]"

section \<open>Background threads\<close>

text \<open>
  \<^verbatim>\<open>
  def play_alarm():
      start = time.time()
      while time.time() - start < duration:
          if not self.running_commands.get('alarm'):
              break
          winsound.Beep(1000, 500)
          time.sleep(0.1)
      self.running_commands['alarm'] = False
  \<close>
  One step of the thread is one pass through the loop test: with the clock reading
  \<open>now\<close> it either runs the body once or leaves the loop, by the duration or by
  the \<^verbatim>\<open>break\<close>, and then writes \<^verbatim>\<open>False\<close> to the slot and returns. The very
  first step reads \<^verbatim>\<open>start\<close>.
\<close>

definition play_alarm_step :: "real \<Rightarrow> task \<Rightarrow> world \<Rightarrow> task \<times> world" where
  "play_alarm_step now t w =
     (case start t of
        None \<Rightarrow> (t\<lparr>start := Some now\<rparr>, w)
      | Some s \<Rightarrow>
          if now - s < real_of_int (duration t) \<and> slot_active w ''alarm''
          then (t, do_effect (Beep 1000 500) w)
          else (t\<lparr>finished := True\<rparr>, set_slot ''alarm'' False w))"

text \<open>
  \<^verbatim>\<open>find_loop\<close> has the same shape on the \<^verbatim>\<open>findme\<close> slot; its body beeps, sleeps
  a second and, when \<^verbatim>\<open>int(time.time() - start) % 10 == 0\<close> at the second clock
  reading \<open>now2\<close>, looks the location up and reports it if the lookup succeeded.
\<close>

definition find_loop_step :: "env \<Rightarrow> real \<Rightarrow> real \<Rightarrow> task \<Rightarrow> world \<Rightarrow> task \<times> world" where
  "find_loop_step e now now2 t w =
     (case start t of
        None \<Rightarrow> (t\<lparr>start := Some now\<rparr>, w)
      | Some s \<Rightarrow>
          if now - s < real_of_int (duration t) \<and> slot_active w ''findme''
          then
            (let w1 = do_effect (Beep 2000 200) w in
             if py_trunc (now2 - s) mod 10 = 0
             then (case cmd_location e (PDict []) w1 of
                     (Raises x, w2) \<Rightarrow> (t\<lparr>finished := True\<rparr>, w2)
                   | (Returns loc, w2) \<Rightarrow>
                       (t, if py_truthy (dict_get loc ''success'')
                           then update_device_location e loc w2 else w2))
             else (t, w1))
          else (t\<lparr>finished := True\<rparr>, set_slot ''findme'' False w))"

text \<open>The scheduler lets thread \<open>i\<close> take one step.\<close>

definition run_thread :: "env \<Rightarrow> nat \<Rightarrow> real \<Rightarrow> real \<Rightarrow> world \<Rightarrow> world" where
  "run_thread e i now now2 w =
     (if i < length (threads w) \<and> \<not> finished (threads w ! i)
      then (let t = threads w ! i
            in case (case kind t of
                       AlarmTask \<Rightarrow> play_alarm_step now t w
                     | FindTask \<Rightarrow> find_loop_step e now now2 t w) of
                 (t', w') \<Rightarrow> w'\<lparr>threads := (threads w')[i := t']\<rparr>)
      else w)"

section \<open>The dispatcher\<close>

text \<open>
  Lines 602 to 606 of \<^verbatim>\<open>process_command\<close>: arguments that arrive as a string go
  through \<^verbatim>\<open>json.loads\<close>; when that raises, they become \<^verbatim>\<open>{}\<close>.
\<close>

definition normalize_args :: "env \<Rightarrow> pyval \<Rightarrow> pyval" where
  "normalize_args e a =
     (case a of
        PStr s \<Rightarrow> (case json_loads e s of Some v \<Rightarrow> v | None \<Rightarrow> PDict [])
      | _ \<Rightarrow> a)"

text \<open>
  The \<^verbatim>\<open>try\<close> block of \<^verbatim>\<open>process_command\<close>. It ends normally or with the exception
  that left it, in the state reached by then.
  \<^verbatim>\<open>
  cmd_id = command['id']
  cmd_name = command['command'].lower()
  cmd_args = command.get('args', {})
  if isinstance(cmd_args, str): ...
  logger.info(f"Processing command: {cmd_name}")
  handler = self.handlers.get(cmd_name)
  if handler:
      result = handler(cmd_args)
  else:
      result = {'success': False, 'error': f'Unknown command: {cmd_name}'}
  self.update_command_result(cmd_id, result)
  logger.info(f"Command {cmd_name} completed: {result.get('success')}")
  \<close>
\<close>

definition process_command_try ::
  "env \<Rightarrow> (string \<Rightarrow> handler option) \<Rightarrow> pydict \<Rightarrow> world \<Rightarrow> exn option \<times> world" where
  "process_command_try e hs command w =
     (case map_of command ''id'' of
        None \<Rightarrow> (Some (KeyError ''id''), w)
      | Some cmd_id \<Rightarrow>
          (case map_of command ''command'' of
             None \<Rightarrow> (Some (KeyError ''command''), w)
           | Some (PStr s) \<Rightarrow>
               (let cmd_name = py_lower e s;
                    cmd_args = normalize_args e (dict_get_default command ''args'' (PDict []));
                    w1 = log_info (''Processing command: '' @ cmd_name) w
                in case (case hs cmd_name of
                           Some h \<Rightarrow> h e cmd_args w1
                         | None \<Rightarrow> (Returns (failure (''Unknown command: '' @ cmd_name)), w1)) of
                     (Raises x, w2) \<Rightarrow> (Some x, w2)
                   | (Returns result, w2) \<Rightarrow>
                       (None,
                        log_info (''Command '' @ cmd_name @ '' completed: ''
                                    @ py_str e (dict_get result ''success''))
                          (update_command_result e cmd_id result w2)))
           | Some c \<Rightarrow> (Some (AttributeError (type_name c) ''lower''), w)))"

text \<open>
  \<^verbatim>\<open>process_command\<close>: the block above under
  \<^verbatim>\<open>except Exception as e: logger.error(f"Error processing command: {e}")\<close>.
\<close>

definition process_command ::
  "env \<Rightarrow> (string \<Rightarrow> handler option) \<Rightarrow> pydict \<Rightarrow> world \<Rightarrow> world" where
  "process_command e hs command w =
     (case process_command_try e hs command w of
        (None, w') \<Rightarrow> w'
      | (Some x, w') \<Rightarrow> log_error (''Error processing command: '' @ exn_str x) w')"

text \<open>The completion writes issued so far: identifier and result, in order.\<close>

fun completions_of :: "store_req list \<Rightarrow> (pyval \<times> pydict) list" where
  "completions_of [] = []"
| "completions_of (UpdateCommand i r # rs) = (i, r) # completions_of rs"
| "completions_of (q # rs) = completions_of rs"

definition completions :: "world \<Rightarrow> (pyval \<times> pydict) list" where
  "completions w = completions_of (requests w)"


text \<open>
  The query of the Poller and of the startup sweep,
  \<^verbatim>\<open>.eq('device_id', self.device_id).eq('status', 'pending')\<close>: the rows of the
  commands table for this device whose status is pending.
\<close>

definition pending_for :: "pyval \<Rightarrow> pydict \<Rightarrow> bool" where
  "pending_for d r \<longleftrightarrow>
     map_of r ''device_id'' = Some d \<and> map_of r ''status'' = Some (PStr ''pending'')"

definition select_pending :: "world \<Rightarrow> pydict list" where
  "select_pending w = filter (pending_for (device_id w)) (commands w)"



text \<open>
  One pass of the loop of \<^verbatim>\<open>listen_polling\<close>: the query, the dispatch of every row
  it returned, the liveness write; an exception of either request is logged as
  \<^verbatim>\<open>Listen loop error\<close>.
\<close>

definition poll_iteration :: "env \<Rightarrow> world \<Rightarrow> world" where
  "poll_iteration e w =
     (let n = length (requests w);
          w1 = w\<lparr>requests := requests w @ [SelectPending (device_id w)]\<rparr>
      in case store_fault e n of
           Some m \<Rightarrow> log_error (''Listen loop error: '' @ m) w1
         | None \<Rightarrow>
             (let w2 = foldl (\<lambda>v command. process_command e handlers command v) w1
                         (select_pending w1);
                  n2 = length (requests w2);
                  w3 = w2\<lparr>requests := requests w2 @ [UpdateDevice (device_id w2)]\<rparr>
              in case store_fault e n2 of
                   Some m \<Rightarrow> log_error (''Listen loop error: '' @ m) w3
                 | None \<Rightarrow> w3))"

section \<open>The main loop\<close>

text \<open>
  Where the main thread stands in \<^verbatim>\<open>listen\<close>: inside
  \<^verbatim>\<open>asyncio.run(self.listen_realtime())\<close> before or after the subscription is
  established, inside the loop of \<^verbatim>\<open>listen_polling\<close>, returned, or ended by an
  exception that nothing caught.
\<close>

datatype phase = RealtimeSetup | RealtimeLive | Polling | Stopped | Crashed


definition fallback_message :: log_entry where
  "fallback_message = LogInfo ''Falling back to polling mode...''"

definition unavailable_message :: log_entry where
  "unavailable_message = LogInfo ''Realtime not available, using polling mode''"

definition polling_message :: log_entry where
  "polling_message = LogInfo ''Using polling mode (fallback)...''"




text \<open>
  The three log lines of \<^verbatim>\<open>listen_realtime\<close> once the channel is subscribed; the
  rule is fifty equals signs.
\<close>

definition realtime_banner :: "world \<Rightarrow> world" where
  "realtime_banner w =
     log_info ''==================================================''
       (log_info ''REALTIME MODE - Commands execute INSTANTLY!''
          (log_info ''=================================================='' w))"




section \<open>What command handling leaves alone\<close>

text \<open>
  The log lines that announce polling mode, in the order they were written: the
  fallback after a Realtime failure, the notice that Realtime is not available, and
  the entry line of \<^verbatim>\<open>listen_polling\<close>. And the number of queries for pending
  commands sent so far.
\<close>

definition mode_logs :: "world \<Rightarrow> log_entry list" where
  "mode_logs w =
     filter (\<lambda>l. l = fallback_message \<or> l = unavailable_message \<or> l = polling_message) (logs w)"

definition queries :: "world \<Rightarrow> nat" where
  "queries w =
     length (filter (\<lambda>q. case q of SelectPending d \<Rightarrow> True | _ \<Rightarrow> False) (requests w))"

text \<open>
  The part of the state that dispatching a command never writes: the device identity,
  the \<^verbatim>\<open>running\<close> flag, the number of queries and the log lines about polling mode.
  A handler on its own also leaves the remote commands table and the completion
  writes alone.
\<close>

definition steady :: "world \<Rightarrow> pyval \<times> bool \<times> nat \<times> log_entry list" where
  "steady w = (device_id w, running w, queries w, mode_logs w)"

definition untouched ::
  "world \<Rightarrow> (pyval \<times> bool \<times> nat \<times> log_entry list) \<times> pydict list \<times> (pyval \<times> pydict) list" where
  "untouched w = (steady w, commands w, completions w)"

text \<open>
  A row the dispatcher gets as far as a handler (or the unknown-command result) with:
  it has an \<^verbatim>\<open>id\<close> and its \<^verbatim>\<open>command\<close> is a string.
\<close>

definition dispatchable :: "pydict \<Rightarrow> bool" where
  "dispatchable c \<longleftrightarrow>
     map_of c ''id'' \<noteq> None \<and> (case map_of c ''command'' of Some (PStr s) \<Rightarrow> True | _ \<Rightarrow> False)"

text \<open>The capture attempts so far: the calls of \<^verbatim>\<open>cap.read()\<close>.\<close>

definition captures :: "world \<Rightarrow> nat" where
  "captures w = count_list (effects w) CamRead"

section \<open>Sample surroundings and states\<close>

text \<open>
  A sample of \<^verbatim>\<open>str.lower\<close>: the letters A to Z map to a to z and every other
  character stays, as the library does on ASCII text (the samples below pass it
  nothing else).
\<close>

definition char_lower :: "char \<Rightarrow> char" where
  "char_lower c =
     (case map_of (zip ''ABCDEFGHIJKLMNOPQRSTUVWXYZ'' ''abcdefghijklmnopqrstuvwxyz'') c of
        Some l \<Rightarrow> l
      | None \<Rightarrow> c)"

definition ascii_lower :: "string \<Rightarrow> string" where
  "ascii_lower s = map char_lower s"

text \<open>
  A sample of \<^verbatim>\<open>json.loads\<close>: it agrees with the library on the empty object and
  the empty array and rejects every other string (the samples below pass it these two
  and one malformed string).
\<close>

definition json_loads_sample :: "string \<Rightarrow> pyval option" where
  "json_loads_sample s =
     (if s = ''{}'' then Some (PDict [])
      else if s = ''[]'' then Some (PList [])
      else None)"

definition env0 :: env where
  "env0 = \<lparr> py_lower = ascii_lower,
            json_loads = json_loads_sample,
            json_dumps = (\<lambda>d. ''{...}''),
            py_repr = (\<lambda>v. ''...''),
            int_of_str = (\<lambda>s. None),
            store_fault = (\<lambda>n. None),
            upload_fault = (\<lambda>n. None),
            read_fault = (\<lambda>f. None),
            utcnow = (\<lambda>n. ''2024-01-01T00:00:00''),
            strftime_now = (\<lambda>n. ''20240101_000000''),
            public_url = (\<lambda>b p. ''https://store/'' @ b @ ''/'' @ p),
            host_status = Inr [(''hostname'', PStr ''pc'')],
            grab_fault = None,
            cam_opened = True,
            cam_ret = (\<lambda>n. True),
            capture_fault = (\<lambda>n. None),
            geo_lookup = Inr [(''status'', PStr ''success'')],
            sensors_battery = Inr None,
            wifi_interfaces = Inr [],
            wmi_fields = Inr [],
            record_fault = None,
            sd_stop_fault = None,
            wifi_profiles = Inr [],
            process_list = Inr [],
            lock_fault = None,
            shutdown_fault = None,
            realtime_available = True \<rparr>"

definition world0 :: world where
  "world0 = \<lparr> device_id = PStr ''dev-1'', running = False, running_commands = Map.empty,
              logs = [], commands = [], requests = [], effects = [], threads = [] \<rparr>"

definition world_both_active :: world where
  "world_both_active = set_slot ''alarm'' True (set_slot ''findme'' True world0)"

text \<open>
  Sample command rows, and surroundings in which the host facts cannot be read.
\<close>

definition record_unknown :: pydict where
  "record_unknown = [(''id'', PStr ''c-1''), (''command'', PStr ''Dance''), (''args'', PDict [])]"



definition record_malformed :: pydict where
  "record_malformed =
     [(''id'', PStr ''c-4''), (''command'', PStr ''status''), (''args'', PStr ''{oops'')]"

definition record_photo_list :: pydict where
  "record_photo_list =
     [(''id'', PStr ''c-5''), (''command'', PStr ''photo''), (''args'', PStr ''[]'')]"

definition record_no_id :: pydict where
  "record_no_id = [(''command'', PStr ''status'')]"

text \<open>
  A photo request for ten frames, one whose count is the float \<^verbatim>\<open>inf\<close> (the
  arguments \<^verbatim>\<open>{"count": 1e400}\<close>), and the state in which a first alarm of one
  second has started and read its clock and a second alarm has just been started.
\<close>

definition args_count_ten :: pyval where
  "args_count_ten = PDict [(''count'', PInt 10)]"

definition args_count_inf :: pyval where
  "args_count_inf = PDict [(''count'', PFloat PosInf)]"

definition world_alarm_restarted :: world where
  "world_alarm_restarted =
     snd (cmd_alarm env0 (PDict [])
       (run_thread env0 0 0 0
          (snd (cmd_alarm env0 (PDict [(''duration'', PInt 1)]) world0))))"

definition stale_alarm :: task where
  "stale_alarm = \<lparr>kind = AlarmTask, duration = 1, start = Some 0, finished = False\<rparr>"










section \<open>Properties\<close>

subsection \<open>Handlers return and keep to their part of the state\<close>

lemmas mode_message_defs = fallback_message_def unavailable_message_def polling_message_def

lemma completions_of_append [simp]:
  "completions_of (xs @ ys) = completions_of xs @ completions_of ys"
  by (induction xs rule: completions_of.induct) simp_all

lemma untouched_log_error [simp]: "untouched (log_error m w) = untouched w"
  by (simp add: untouched_def steady_def queries_def mode_logs_def log_error_def completions_def
      mode_message_defs)

lemma untouched_log_info:
  "m \<noteq> ''Falling back to polling mode...'' \<Longrightarrow>
   m \<noteq> ''Realtime not available, using polling mode'' \<Longrightarrow>
   m \<noteq> ''Using polling mode (fallback)...'' \<Longrightarrow> untouched (log_info m w) = untouched w"
  by (simp add: untouched_def steady_def queries_def mode_logs_def log_info_def completions_def
      mode_message_defs)

lemma untouched_do_effect [simp]: "untouched (do_effect x w) = untouched w"
  by (simp add: untouched_def steady_def queries_def mode_logs_def do_effect_def completions_def)

lemma untouched_set_slot [simp]: "untouched (set_slot k b w) = untouched w"
  by (simp add: untouched_def steady_def queries_def mode_logs_def set_slot_def completions_def)

lemma untouched_spawn [simp]: "untouched (spawn k d w) = untouched w"
  by (simp add: untouched_def steady_def queries_def mode_logs_def spawn_def completions_def)

lemma untouched_upload_file [simp]: "untouched (snd (upload_file e b f w)) = untouched w"
  by (simp add: untouched_def steady_def queries_def mode_logs_def upload_file_def Let_def
      log_error_def completions_def mode_message_defs split: option.splits)

lemma untouched_update_device_location [simp]:
  "untouched (update_device_location e l w) = untouched w"
  by (simp add: untouched_def steady_def queries_def mode_logs_def update_device_location_def
      Let_def log_error_def completions_def mode_message_defs split: option.splits)

lemma untouched_capture_loop [simp]:
  "untouched (snd (capture_loop e is photos w)) = untouched w"
  by (induction "is" arbitrary: photos w)
    (simp_all add: Let_def case_prod_unfold split: option.splits)

lemma snd_try_except [simp]: "snd (try_except b e a w) = snd (b e a w)"
  by (simp add: try_except_def split: prod.splits outcome.splits)

lemma try_except_returns: "\<exists>r. fst (try_except b e a w) = Returns r"
  by (simp add: try_except_def split: prod.splits outcome.splits)


lemma try_except_passes:
  "b e a w = (Returns r, w') \<Longrightarrow> try_except b e a w = (Returns r, w')"
  by (simp add: try_except_def)

lemma untouched_cmd_status [simp]: "untouched (snd (cmd_status e a w)) = untouched w"
  by (simp add: cmd_status_def cmd_status_body_def split: sum.splits)

lemma untouched_cmd_screenshot [simp]: "untouched (snd (cmd_screenshot e a w)) = untouched w"
  by (simp add: cmd_screenshot_def cmd_screenshot_body_def Let_def case_prod_unfold split: option.splits)

lemma untouched_cmd_photo [simp]: "untouched (snd (cmd_photo e a w)) = untouched w"
  by (simp add: cmd_photo_def cmd_photo_body_def Let_def case_prod_unfold split: sum.splits)

lemma untouched_cmd_location [simp]: "untouched (snd (cmd_location e a w)) = untouched w"
  by (simp add: cmd_location_def cmd_location_body_def split: sum.splits)

lemma cmd_location_state [simp]: "snd (cmd_location e a w) = w"
  by (simp add: cmd_location_def cmd_location_body_def split: sum.splits)

lemma untouched_cmd_battery [simp]: "untouched (snd (cmd_battery e a w)) = untouched w"
  by (simp add: cmd_battery_def cmd_battery_body_def split: sum.splits option.splits)

lemma untouched_cmd_wifiinfo [simp]: "untouched (snd (cmd_wifiinfo e a w)) = untouched w"
  by (simp add: cmd_wifiinfo_def cmd_wifiinfo_body_def split: sum.splits)

lemma untouched_cmd_sysinfo [simp]: "untouched (snd (cmd_sysinfo e a w)) = untouched w"
  by (simp add: cmd_sysinfo_def cmd_sysinfo_body_def case_prod_unfold split: outcome.splits sum.splits)

lemma untouched_cmd_audio [simp]: "untouched (snd (cmd_audio e a w)) = untouched w"
  by (simp add: cmd_audio_def cmd_audio_body_def Let_def case_prod_unfold untouched_log_info
      split: sum.splits option.splits)

lemma untouched_cmd_alarm [simp]: "untouched (snd (cmd_alarm e a w)) = untouched w"
  by (simp add: cmd_alarm_def cmd_alarm_body_def split: sum.splits)

lemma untouched_cmd_findme [simp]: "untouched (snd (cmd_findme e a w)) = untouched w"
  by (simp add: cmd_findme_def cmd_findme_body_def case_prod_unfold split: outcome.splits sum.splits)

lemma untouched_cmd_stopfind [simp]: "untouched (snd (cmd_stopfind e a w)) = untouched w"
  by (simp add: cmd_stopfind_def)

lemma untouched_cmd_stop [simp]: "untouched (snd (cmd_stop e a w)) = untouched w"
  by (simp add: cmd_stop_def cmd_stop_body_def Let_def)

lemma untouched_cmd_listnetworks [simp]: "untouched (snd (cmd_listnetworks e a w)) = untouched w"
  by (simp add: cmd_listnetworks_def cmd_listnetworks_body_def split: sum.splits)

lemma untouched_cmd_appusage [simp]: "untouched (snd (cmd_appusage e a w)) = untouched w"
  by (simp add: cmd_appusage_def cmd_appusage_body_def split: sum.splits)

lemma untouched_cmd_processes [simp]: "untouched (snd (cmd_processes e a w)) = untouched w"
  by (simp add: cmd_processes_def)

lemma untouched_cmd_lockscreen [simp]: "untouched (snd (cmd_lockscreen e a w)) = untouched w"
  by (simp add: cmd_lockscreen_def cmd_lockscreen_body_def split: option.splits)

lemma untouched_cmd_shutdown [simp]: "untouched (snd (cmd_shutdown e a w)) = untouched w"
  by (simp add: cmd_shutdown_def cmd_shutdown_body_def split: sum.splits option.splits)

lemma untouched_cmd_restart [simp]: "untouched (snd (cmd_restart e a w)) = untouched w"
  by (simp add: cmd_restart_def cmd_restart_body_def split: sum.splits option.splits)

lemma handlers_cases:
  "handlers n = Some h \<Longrightarrow>
   h \<in> {cmd_status, cmd_screenshot, cmd_photo, cmd_location, cmd_battery, cmd_wifiinfo,
        cmd_sysinfo, cmd_audio, cmd_alarm, cmd_findme, cmd_stopfind, cmd_stop,
        cmd_listnetworks, cmd_appusage, cmd_processes, cmd_lockscreen, cmd_shutdown,
        cmd_restart}"
  unfolding handlers_def by (drule map_of_SomeD) auto

lemma handlers_untouched:
  "handlers n = Some h \<Longrightarrow> untouched (snd (h e a w)) = untouched w"
  by (drule handlers_cases) auto

lemma cmd_status_returns: "\<exists>r. fst (cmd_status e a w) = Returns r"
  unfolding cmd_status_def by (rule try_except_returns)

lemma cmd_screenshot_returns: "\<exists>r. fst (cmd_screenshot e a w) = Returns r"
  unfolding cmd_screenshot_def by (rule try_except_returns)

lemma cmd_photo_returns: "\<exists>r. fst (cmd_photo e a w) = Returns r"
  unfolding cmd_photo_def by (rule try_except_returns)

lemma cmd_location_returns: "\<exists>r. fst (cmd_location e a w) = Returns r"
  unfolding cmd_location_def by (rule try_except_returns)

lemma cmd_battery_returns: "\<exists>r. fst (cmd_battery e a w) = Returns r"
  unfolding cmd_battery_def by (rule try_except_returns)

lemma cmd_wifiinfo_returns: "\<exists>r. fst (cmd_wifiinfo e a w) = Returns r"
  unfolding cmd_wifiinfo_def by (rule try_except_returns)

lemma cmd_sysinfo_returns: "\<exists>r. fst (cmd_sysinfo e a w) = Returns r"
  unfolding cmd_sysinfo_def by (rule try_except_returns)

lemma cmd_audio_returns: "\<exists>r. fst (cmd_audio e a w) = Returns r"
  unfolding cmd_audio_def by (rule try_except_returns)

lemma cmd_alarm_returns: "\<exists>r. fst (cmd_alarm e a w) = Returns r"
  unfolding cmd_alarm_def by (rule try_except_returns)

lemma cmd_findme_returns: "\<exists>r. fst (cmd_findme e a w) = Returns r"
  unfolding cmd_findme_def by (rule try_except_returns)

lemma cmd_stopfind_returns: "\<exists>r. fst (cmd_stopfind e a w) = Returns r"
  by (simp add: cmd_stopfind_def)

lemma cmd_stop_returns: "\<exists>r. fst (cmd_stop e a w) = Returns r"
  unfolding cmd_stop_def by (rule try_except_returns)

lemma cmd_listnetworks_returns: "\<exists>r. fst (cmd_listnetworks e a w) = Returns r"
  unfolding cmd_listnetworks_def by (rule try_except_returns)

lemma cmd_appusage_returns: "\<exists>r. fst (cmd_appusage e a w) = Returns r"
  unfolding cmd_appusage_def by (rule try_except_returns)

lemma cmd_processes_returns: "\<exists>r. fst (cmd_processes e a w) = Returns r"
  by (simp add: cmd_processes_def cmd_appusage_returns)

lemma cmd_lockscreen_returns: "\<exists>r. fst (cmd_lockscreen e a w) = Returns r"
  unfolding cmd_lockscreen_def by (rule try_except_returns)

lemma cmd_shutdown_returns: "\<exists>r. fst (cmd_shutdown e a w) = Returns r"
  unfolding cmd_shutdown_def by (rule try_except_returns)

lemma cmd_restart_returns: "\<exists>r. fst (cmd_restart e a w) = Returns r"
  unfolding cmd_restart_def by (rule try_except_returns)

lemmas cmd_returns =
  cmd_status_returns cmd_screenshot_returns cmd_photo_returns cmd_location_returns
  cmd_battery_returns cmd_wifiinfo_returns cmd_sysinfo_returns cmd_audio_returns
  cmd_alarm_returns cmd_findme_returns cmd_stopfind_returns cmd_stop_returns
  cmd_listnetworks_returns cmd_appusage_returns cmd_processes_returns cmd_lockscreen_returns
  cmd_shutdown_returns cmd_restart_returns

lemma handlers_return:
  "handlers n = Some h \<Longrightarrow> \<exists>r. fst (h e a w) = Returns r"
  by (drule handlers_cases) (auto simp: cmd_returns)

subsection \<open>stopfind\<close>

text \<open>
  C8. \<^verbatim>\<open>cmd_stopfind\<close> cancels the \<^verbatim>\<open>findme\<close> slot only: from every state and for
  every argument, the result is \<^verbatim>\<open>{'success': True, 'message': 'Find Me stopped'}\<close>, the
  \<^verbatim>\<open>findme\<close> slot holds \<^verbatim>\<open>False\<close> afterwards, every other slot (\<^verbatim>\<open>alarm\<close> among
  them) holds what it held before, and nothing else of the state changes.
\<close>

theorem cmd_stopfind_findme_only:
  "fst (cmd_stopfind e args w) =
     Returns [(''success'', PBool True), (''message'', PStr ''Find Me stopped'')]
   \<and> running_commands (snd (cmd_stopfind e args w)) ''findme'' = Some False
   \<and> (\<forall>k. k \<noteq> ''findme'' \<longrightarrow>
         running_commands (snd (cmd_stopfind e args w)) k = running_commands w k)
   \<and> (snd (cmd_stopfind e args w))\<lparr>running_commands := running_commands w\<rparr> = w"
  by (simp add: cmd_stopfind_def set_slot_def)

theorem cmd_stopfind_findme_only_witness:
  "slot_active world_both_active ''alarm''
   \<and> slot_active world_both_active ''findme''
   \<and> running_commands (snd (cmd_stopfind env0 (PDict []) world_both_active)) ''findme'' = Some False
   \<and> running_commands (snd (cmd_stopfind env0 (PDict []) world_both_active)) ''alarm'' = Some True"
  using cmd_stopfind_findme_only [of env0 "PDict []" world_both_active]
  by (simp add: world_both_active_def world0_def set_slot_def slot_active_def)

subsection \<open>stop\<close>

lemma cmd_stop_alarm_active:
  "slot_active w ''alarm'' \<Longrightarrow>
   \<exists>stopped msg w'. cmd_stop e args w =
       (Returns [(''success'', PBool True), (''stopped'', PList stopped), (''message'', PStr msg)], w')
     \<and> PStr ''alarm'' \<in> set stopped
     \<and> running_commands w' ''alarm'' = Some False"
  by (auto simp: cmd_stop_def try_except_def cmd_stop_body_def Let_def slot_active_def set_slot_def
      do_effect_def
      split: option.splits)

text \<open>
  C3. With the alarm slot active, \<^verbatim>\<open>stop\<close> names \<^verbatim>\<open>alarm\<close> and sets the slot to
  \<^verbatim>\<open>False\<close> (\<open>cmd_stop_alarm_active\<close>). With no slot active the claim expects
  \<^verbatim>\<open>stopped = []\<close> and the message \<^verbatim>\<open>No active commands to stop\<close>; the code
  appends \<^verbatim>\<open>'audio'\<close> whenever \<^verbatim>\<open>sd.stop()\<close> returns, so whenever the sound
  device raises nothing the result is \<^verbatim>\<open>stopped = ['audio']\<close> with the message
  \<^verbatim>\<open>Stopped: audio\<close>.
\<close>

theorem cmd_stop_idle_reports_audio:
  "\<not> slot_active w ''alarm'' \<Longrightarrow> \<not> slot_active w ''findme'' \<Longrightarrow> sd_stop_fault e = None \<Longrightarrow>
   fst (cmd_stop e args w) =
     Returns [(''success'', PBool True), (''stopped'', PList [PStr ''audio'']),
              (''message'', PStr ''Stopped: audio'')]"
  by (simp add: cmd_stop_def try_except_def cmd_stop_body_def Let_def)

theorem cmd_stop_idle_reports_audio_witness:
  "\<not> slot_active world0 ''alarm'' \<and> \<not> slot_active world0 ''findme'' \<and> sd_stop_fault env0 = None
   \<and> fst (cmd_stop env0 (PDict []) world0) =
     Returns [(''success'', PBool True), (''stopped'', PList [PStr ''audio'']),
              (''message'', PStr ''Stopped: audio'')]"
  using cmd_stop_idle_reports_audio [of world0 env0 "PDict []"]
  by (simp add: world0_def env0_def slot_active_def)

subsection \<open>The dispatcher\<close>

lemma map_of_dict_set: "map_of (dict_set d k v) = (map_of d)(k \<mapsto> v)"
  by (induction d) auto

lemma process_command_returns:
  assumes "map_of command ''id'' = Some cmd_id"
    and "map_of command ''command'' = Some (PStr s)"
    and "hs (py_lower e s) = Some h"
    and "h e (normalize_args e (dict_get_default command ''args'' (PDict [])))
           (log_info (''Processing command: '' @ py_lower e s) w) = (Returns r, w2)"
  shows "process_command_try e hs command w =
           (None, log_info (''Command '' @ py_lower e s @ '' completed: ''
                              @ py_str e (dict_get r ''success''))
                    (update_command_result e cmd_id r w2))"
  using assms by (simp add: process_command_try_def Let_def)

lemma process_command_raises:
  assumes "map_of command ''id'' = Some cmd_id"
    and "map_of command ''command'' = Some (PStr s)"
    and "hs (py_lower e s) = Some h"
    and "h e (normalize_args e (dict_get_default command ''args'' (PDict [])))
           (log_info (''Processing command: '' @ py_lower e s) w) = (Raises x, w2)"
  shows "process_command_try e hs command w = (Some x, w2)"
  using assms by (simp add: process_command_try_def Let_def)

lemma completions_log_info [simp]: "completions (log_info m w) = completions w"
  by (simp add: completions_def log_info_def)

lemma completions_log_error [simp]: "completions (log_error m w) = completions w"
  by (simp add: completions_def log_error_def)

lemma completions_update_command_result [simp]:
  "completions (update_command_result e i r w) = completions w @ [(i, r)]"
  by (simp add: completions_def update_command_result_def Let_def log_error_def
      split: option.splits)

lemma untouched_completions: "untouched w' = untouched w \<Longrightarrow> completions w' = completions w"
  by (simp add: untouched_def)

lemma normalize_args_dict [simp]: "normalize_args e (PDict m) = PDict m"
  by (simp add: normalize_args_def)

lemma string_args_as_parsed:
  assumes "map_of command ''args'' = Some (PStr a)"
    and "json_loads e a = Some (PDict m) \<and> parsed = PDict m
         \<or> json_loads e a = None \<and> parsed = PDict []"
  shows "process_command e hs command w = process_command e hs (dict_set command ''args'' parsed) w"
  using assms
  by (auto simp: process_command_def process_command_try_def map_of_dict_set dict_get_default_def
      normalize_args_def Let_def split: option.splits pyval.splits)

lemma process_command_catches:
  "process_command_try e hs command w = (Some x, w') \<Longrightarrow>
   process_command e hs command w = log_error (''Error processing command: '' @ exn_str x) w'"
  by (simp add: process_command_def)

text \<open>
  C2. For a record with an \<^verbatim>\<open>id\<close> whose command name, lower-cased by
  \<^verbatim>\<open>str.lower()\<close>, is not in the registry, the \<^verbatim>\<open>try\<close> block of
  \<^verbatim>\<open>process_command\<close> ends without an exception and exactly one request goes to
  the remote store: the completion of that record with
  \<^verbatim>\<open>{'success': False, 'error': 'Unknown command: <lower-cased name>'}\<close>.
\<close>

theorem unknown_command_completion:
  assumes "map_of command ''id'' = Some cmd_id"
    and "map_of command ''command'' = Some (PStr s)"
    and "handlers (py_lower e s) = None"
  shows "fst (process_command_try e handlers command w) = None
    \<and> requests (process_command e handlers command w) =
        requests w @ [UpdateCommand cmd_id
          [(''success'', PBool False), (''error'', PStr (''Unknown command: '' @ py_lower e s))]]
    \<and> completions (process_command e handlers command w) =
        completions w @ [(cmd_id,
          [(''success'', PBool False), (''error'', PStr (''Unknown command: '' @ py_lower e s))])]"
  using assms
  by (simp add: process_command_def process_command_try_def Let_def update_command_result_def
      log_info_def log_error_def failure_def completions_def split: option.splits)

theorem unknown_command_completion_witness:
  "handlers (py_lower env0 ''Dance'') = None
   \<and> completions (process_command env0 handlers record_unknown world0) =
     [(PStr ''c-1'', [(''success'', PBool False), (''error'', PStr ''Unknown command: dance'')])]"
  using unknown_command_completion [of record_unknown "PStr ''c-1''" "''Dance''" env0 world0]
  by (simp add: record_unknown_def env0_def ascii_lower_def char_lower_def handlers_def
      completions_def world0_def)

text \<open>
  C10. \<^verbatim>\<open>process_command\<close> returns a state for every input dictionary and every
  registry: its \<^verbatim>\<open>try\<close> block either ends normally or is left by an exception,
  which is then turned into one log entry and goes no further. For a record without
  \<^verbatim>\<open>id\<close> or without \<^verbatim>\<open>command\<close> the only change of the state is the logged
  \<^verbatim>\<open>KeyError\<close>: no handler runs (slots, threads and local actions are as before)
  and no request, so no completion write, is issued.
\<close>

theorem process_command_missing_key:
  "((\<exists>w'. process_command_try e hs command w = (None, w')
            \<and> process_command e hs command w = w')
     \<or> (\<exists>x w'. process_command_try e hs command w = (Some x, w')
            \<and> process_command e hs command w
                = log_error (''Error processing command: '' @ exn_str x) w'))
   \<and> (map_of command ''id'' = None \<or> map_of command ''command'' = None \<longrightarrow>
        process_command e hs command w =
           w\<lparr>logs := logs w @ [LogError (''Error processing command: '' @ [CHR 0x27]
                    @ (if map_of command ''id'' = None then ''id'' else ''command'') @ [CHR 0x27])]\<rparr>
        \<and> requests (process_command e hs command w) = requests w
        \<and> effects (process_command e hs command w) = effects w
        \<and> running_commands (process_command e hs command w) = running_commands w
        \<and> threads (process_command e hs command w) = threads w)"
proof (intro conjI impI)
  show "(\<exists>w'. process_command_try e hs command w = (None, w')
            \<and> process_command e hs command w = w')
     \<or> (\<exists>x w'. process_command_try e hs command w = (Some x, w')
            \<and> process_command e hs command w
                = log_error (''Error processing command: '' @ exn_str x) w')"
    by (cases "process_command_try e hs command w"; cases "fst (process_command_try e hs command w)")
      (auto simp: process_command_def)
next
  assume k: "map_of command ''id'' = None \<or> map_of command ''command'' = None"
  then show "process_command e hs command w =
           w\<lparr>logs := logs w @ [LogError (''Error processing command: '' @ [CHR 0x27]
                    @ (if map_of command ''id'' = None then ''id'' else ''command'') @ [CHR 0x27])]\<rparr>"
    by (auto simp: process_command_def process_command_try_def log_error_def split: option.splits)
  then show "requests (process_command e hs command w) = requests w"
    "effects (process_command e hs command w) = effects w"
    "running_commands (process_command e hs command w) = running_commands w"
    "threads (process_command e hs command w) = threads w"
    by simp_all
qed

theorem process_command_missing_key_witness:
  "map_of record_no_id ''id'' = None
   \<and> process_command env0 handlers record_no_id world0 =
       world0\<lparr>logs := [LogError (''Error processing command: '' @ [CHR 0x27] @ ''id'' @ [CHR 0x27])]\<rparr>
   \<and> completions (process_command env0 handlers record_no_id world0) = []"
  using process_command_missing_key [of env0 handlers record_no_id world0]
  by (simp add: record_no_id_def world0_def completions_def)



text \<open>
  C5 (as amended). For a record with a registered command whose \<^verbatim>\<open>args\<close> is a
  string: if \<^verbatim>\<open>json.loads\<close> decodes it to a JSON object, the handler is called with
  that map; if \<^verbatim>\<open>json.loads\<close> rejects it, the handler is called with the empty map.
  In both cases the completion written is the handler's own result, and the record is
  processed exactly as the record that carries the map already parsed.
\<close>

theorem string_args_parsed:
  assumes "map_of command ''id'' = Some cmd_id"
    and "map_of command ''command'' = Some (PStr s)"
    and "map_of command ''args'' = Some (PStr a)"
    and "hs (py_lower e s) = Some h"
    and "json_loads e a = Some (PDict m) \<and> parsed = PDict m
         \<or> json_loads e a = None \<and> parsed = PDict []"
    and "h e parsed (log_info (''Processing command: '' @ py_lower e s) w) = (Returns r, w2)"
  shows "process_command e hs command w =
           log_info (''Command '' @ py_lower e s @ '' completed: ''
                      @ py_str e (dict_get r ''success''))
             (update_command_result e cmd_id r w2)
       \<and> completions (process_command e hs command w) = completions w2 @ [(cmd_id, r)]
       \<and> process_command e hs command w
           = process_command e hs (dict_set command ''args'' parsed) w"
proof -
  have n: "normalize_args e (dict_get_default command ''args'' (PDict [])) = parsed"
    using assms(3,5) by (auto simp: dict_get_default_def normalize_args_def)
  have body: "process_command_try e hs command w =
           (None, log_info (''Command '' @ py_lower e s @ '' completed: ''
                              @ py_str e (dict_get r ''success''))
                    (update_command_result e cmd_id r w2))"
    using assms(1,2,4,6) n by (simp add: process_command_try_def Let_def)
  then have 1: "process_command e hs command w =
           log_info (''Command '' @ py_lower e s @ '' completed: ''
                      @ py_str e (dict_get r ''success''))
             (update_command_result e cmd_id r w2)"
    by (simp add: process_command_def)
  then have 2: "completions (process_command e hs command w) = completions w2 @ [(cmd_id, r)]"
    by simp
  from 1 2 string_args_as_parsed [OF assms(3,5)] show ?thesis by simp
qed

theorem string_args_parsed_witness:
  "json_loads env0 ''{oops'' = None
   \<and> completions (process_command env0 handlers record_malformed world0) =
       [(PStr ''c-4'', [(''success'', PBool True), (''hostname'', PStr ''pc'')])]
   \<and> process_command env0 handlers record_malformed world0 =
       process_command env0 handlers
         [(''id'', PStr ''c-4''), (''command'', PStr ''status''), (''args'', PDict [])] world0"
proof -
  let ?w1 = "log_info (''Processing command: '' @ py_lower env0 ''status'') world0"
  let ?r = "[(''success'', PBool True), (''hostname'', PStr ''pc'')]"
  have h: "handlers (py_lower env0 ''status'') = Some cmd_status"
    by (simp add: handlers_def env0_def ascii_lower_def char_lower_def)
  have j: "json_loads env0 ''{oops'' = None"
    by (simp add: env0_def json_loads_sample_def)
  have c: "cmd_status env0 (PDict []) ?w1 = (Returns ?r, ?w1)"
    by (simp add: cmd_status_def try_except_def cmd_status_body_def env0_def)
  have k: "map_of record_malformed ''id'' = Some (PStr ''c-4'')"
    "map_of record_malformed ''command'' = Some (PStr ''status'')"
    "map_of record_malformed ''args'' = Some (PStr ''{oops'')"
    by (simp_all add: record_malformed_def)
  have p: "json_loads env0 ''{oops'' = Some (PDict []) \<and> PDict [] = PDict []
         \<or> json_loads env0 ''{oops'' = None \<and> PDict [] = PDict []"
    using j by simp
  note t = string_args_parsed [where hs = handlers and h = cmd_status and e = env0
      and m = "[]", OF k h p c]
  have 1: "completions (process_command env0 handlers record_malformed world0)
          = completions ?w1 @ [(PStr ''c-4'', ?r)]"
    using t by blast
  have 2: "process_command env0 handlers record_malformed world0
           = process_command env0 handlers (dict_set record_malformed ''args'' (PDict [])) world0"
    using t by blast
  have 3: "completions ?w1 = []"
    by (simp add: completions_def world0_def log_info_def)
  have 4: "dict_set record_malformed ''args'' (PDict [])
         = [(''id'', PStr ''c-4''), (''command'', PStr ''status''), (''args'', PDict [])]"
    by (simp add: record_malformed_def)
  from j 1 2 3 4 show ?thesis by simp
qed

text \<open>
  The claim as stated fails for a string that is valid JSON but not an object: the
  handler receives the decoded value, here a list, and \<^verbatim>\<open>photo\<close> reports
  the failure \<^verbatim>\<open>'list' object has no attribute 'get'\<close>.
\<close>

theorem string_args_list_counterexample:
  "map_of record_photo_list ''args'' = Some (PStr ''[]'')
   \<and> normalize_args env0 (PStr ''[]'') = PList []
   \<and> completions (process_command env0 handlers record_photo_list world0) =
       [(PStr ''c-5'', failure (exn_str (AttributeError ''list'' ''get'')))]"
  by (simp add: process_command_def process_command_try_def handlers_def record_photo_list_def
      ascii_lower_def char_lower_def Let_def log_info_def log_error_def world0_def completions_def
      dict_get_default_def normalize_args_def env0_def json_loads_sample_def cmd_photo_def
      try_except_def cmd_photo_body_def
      min_int_arg_def int_arg_def py_get_def update_command_result_def failure_def)

subsection \<open>photo\<close>

lemma effects_upload_file [simp]: "effects (snd (upload_file e b f w)) = effects w"
  by (simp add: upload_file_def Let_def log_error_def split: option.splits)

lemma captures_upload_file [simp]: "captures (snd (upload_file e b f w)) = captures w"
  by (simp add: captures_def)

lemma captures_do_effect [simp]:
  "captures (do_effect x w) = (if x = CamRead then Suc (captures w) else captures w)"
  by (simp add: captures_def do_effect_def)

lemma captures_capture_loop_le:
  "captures (snd (capture_loop e is photos w)) \<le> captures w + length is"
proof (induction "is" arbitrary: photos w)
  case Nil
  show ?case by simp
next
  case (Cons i "is")
  have later: "captures (snd (capture_loop e is P W)) \<le> Suc (captures w + length is)"
    if "captures W = Suc (captures w)" for P W
    using Cons [of P W] that by linarith
  show ?case
    by (simp add: Let_def case_prod_unfold later split: option.splits)
qed

lemma captures_capture_loop_eq:
  "\<forall>i \<in> set is. capture_fault e i = None \<Longrightarrow>
   captures (snd (capture_loop e is photos w)) = captures w + length is"
  by (induction "is" arbitrary: photos w) (simp_all add: Let_def case_prod_unfold)

lemma min_int_arg_exceeds:
  "int_arg e args k dflt = Inr n \<Longrightarrow> cap < n \<Longrightarrow> min_int_arg e args k dflt cap = Inr cap"
  by (simp add: min_int_arg_def)

lemma captures_cmd_photo_le: "captures (snd (cmd_photo e args w)) \<le> captures w + 5"
proof (cases "min_int_arg e args ''count'' 1 5")
  case (Inl x)
  then show ?thesis by (simp add: cmd_photo_def cmd_photo_body_def)
next
  case (Inr c)
  then have c: "c \<le> 5"
    by (auto simp: min_int_arg_def split: sum.splits)
  have "captures (snd (capture_loop e [0 ..< nat c] [] (do_effect CamOpen w)))
          \<le> captures (do_effect CamOpen w) + length [0 ..< nat c]"
    by (rule captures_capture_loop_le)
  with c have "captures (snd (capture_loop e [0 ..< nat c] [] (do_effect CamOpen w)))
          \<le> captures w + 5"
    by simp
  with Inr show ?thesis
    by (simp add: cmd_photo_def cmd_photo_body_def Let_def case_prod_unfold split: sum.splits)
qed

lemma py_trunc_exceeds: "5 < r \<Longrightarrow> 5 \<le> py_trunc r"
  unfolding py_trunc_def by (simp add: le_floor_iff)

lemma cmd_photo_five:
  assumes "min_int_arg e args ''count'' 1 5 = Inr 5"
    and "cam_opened e" and "\<forall>i < 5. capture_fault e i = None"
  shows "captures (snd (cmd_photo e args w)) = captures w + 5"
proof -
  from assms(3) have "\<forall>i \<in> set [0 ..< nat 5]. capture_fault e i = None"
    by simp
  then have "captures (snd (capture_loop e [0 ..< nat 5] [] (do_effect CamOpen w)))
          = captures (do_effect CamOpen w) + length [0 ..< nat 5]"
    by (rule captures_capture_loop_eq)
  with assms(1,2) show ?thesis
    by (simp add: cmd_photo_def cmd_photo_body_def Let_def case_prod_unfold split: sum.splits)
qed

lemma cmd_photo_overflow:
  assumes "py_get args ''count'' (PInt 1) = Inr (PFloat PosInf)"
  shows "min_int_arg e args ''count'' 1 5
           = Inl (OverflowError ''cannot convert float infinity to integer'')"
    and "cmd_photo e args w
           = (Returns [(''success'', PBool False),
                       (''error'', PStr ''cannot convert float infinity to integer'')], w)"
proof -
  show m: "min_int_arg e args ''count'' 1 5
           = Inl (OverflowError ''cannot convert float infinity to integer'')"
    using assms by (simp add: min_int_arg_def int_arg_def py_int_def)
  show "cmd_photo e args w
           = (Returns [(''success'', PBool False),
                       (''error'', PStr ''cannot convert float infinity to integer'')], w)"
    by (simp add: cmd_photo_def try_except_def cmd_photo_body_def m failure_def)
qed

text \<open>
  C7 (as amended). When the \<^verbatim>\<open>count\<close> argument of \<^verbatim>\<open>photo\<close> is an integer or
  a finite float that exceeds 5 (for instance 10), or any value that \<^verbatim>\<open>int()\<close> reads
  as a number exceeding 5, the handler's count is 5; the handler makes at most 5
  capture attempts whatever its arguments are, and with the count 5, the camera open
  and no exception in the loop it makes exactly 5. When \<^verbatim>\<open>count\<close> is the float
  \<^verbatim>\<open>inf\<close>, nothing is clamped: \<^verbatim>\<open>int()\<close> raises \<^verbatim>\<open>OverflowError\<close>, the handler
  returns \<^verbatim>\<open>{'success': False, 'error': 'cannot convert float infinity to integer'}\<close>
  and the state, so the number of capture attempts, is as before.
\<close>

theorem cmd_photo_clamps:
  "(int_arg e args ''count'' 1 = Inr n \<and> 5 < n
      \<longrightarrow> min_int_arg e args ''count'' 1 5 = Inr 5)
   \<and> (py_get args ''count'' (PInt 1) = Inr v
        \<and> (v = PInt i \<and> 5 < i \<or> v = PFloat (Finite r) \<and> 5 < r)
      \<longrightarrow> min_int_arg e args ''count'' 1 5 = Inr 5)
   \<and> captures (snd (cmd_photo e args w)) \<le> captures w + 5
   \<and> (min_int_arg e args ''count'' 1 5 = Inr 5
        \<and> cam_opened e \<and> (\<forall>i < 5. capture_fault e i = None)
      \<longrightarrow> captures (snd (cmd_photo e args w)) = captures w + 5)
   \<and> (py_get args ''count'' (PInt 1) = Inr (PFloat PosInf)
      \<longrightarrow> min_int_arg e args ''count'' 1 5
            = Inl (OverflowError ''cannot convert float infinity to integer'')
          \<and> cmd_photo e args w
            = (Returns [(''success'', PBool False),
                        (''error'', PStr ''cannot convert float infinity to integer'')], w))"
proof (intro conjI impI)
  assume "int_arg e args ''count'' 1 = Inr n \<and> 5 < n"
  then show "min_int_arg e args ''count'' 1 5 = Inr 5"
    by (simp add: min_int_arg_def)
next
  assume a: "py_get args ''count'' (PInt 1) = Inr v
    \<and> (v = PInt i \<and> 5 < i \<or> v = PFloat (Finite r) \<and> 5 < r)"
  then consider "v = PInt i" "5 < i" | "v = PFloat (Finite r)" "5 < r"
    by blast
  then show "min_int_arg e args ''count'' 1 5 = Inr 5"
  proof cases
    case 1
    with a show ?thesis
      by (simp add: min_int_arg_def int_arg_def py_int_def)
  next
    case 2
    from 2(2) have "5 \<le> py_trunc r"
      by (rule py_trunc_exceeds)
    with a 2(1) show ?thesis
      by (simp add: min_int_arg_def int_arg_def py_int_def)
  qed
next
  show "captures (snd (cmd_photo e args w)) \<le> captures w + 5"
    by (rule captures_cmd_photo_le)
next
  assume "min_int_arg e args ''count'' 1 5 = Inr 5
    \<and> cam_opened e \<and> (\<forall>i < 5. capture_fault e i = None)"
  then show "captures (snd (cmd_photo e args w)) = captures w + 5"
    by (simp add: cmd_photo_five)
next
  assume a: "py_get args ''count'' (PInt 1) = Inr (PFloat PosInf)"
  then show "min_int_arg e args ''count'' 1 5
           = Inl (OverflowError ''cannot convert float infinity to integer'')"
    by (rule cmd_photo_overflow(1))
  from a show "cmd_photo e args w
           = (Returns [(''success'', PBool False),
                       (''error'', PStr ''cannot convert float infinity to integer'')], w)"
    by (rule cmd_photo_overflow(2))
qed

theorem cmd_photo_clamps_witness:
  "py_get args_count_ten ''count'' (PInt 1) = Inr (PInt 10)
   \<and> int_arg env0 args_count_ten ''count'' 1 = Inr 10
   \<and> min_int_arg env0 args_count_ten ''count'' 1 5 = Inr 5
   \<and> captures world0 = 0
   \<and> captures (snd (cmd_photo env0 args_count_ten world0)) = 5
   \<and> py_get args_count_inf ''count'' (PInt 1) = Inr (PFloat PosInf)
   \<and> fst (cmd_photo env0 args_count_inf world0)
       = Returns [(''success'', PBool False),
                  (''error'', PStr ''cannot convert float infinity to integer'')]"
proof -
  have g: "py_get args_count_ten ''count'' (PInt 1) = Inr (PInt 10)"
    by (simp add: py_get_def args_count_ten_def)
  have a: "int_arg env0 args_count_ten ''count'' 1 = Inr 10"
    by (simp add: int_arg_def g py_int_def)
  have z: "captures world0 = 0"
    by (simp add: captures_def world0_def)
  have ok: "cam_opened env0 \<and> (\<forall>i < 5. capture_fault env0 i = None)"
    by (simp add: env0_def)
  have i: "py_get args_count_inf ''count'' (PInt 1) = Inr (PFloat PosInf)"
    by (simp add: py_get_def args_count_inf_def)
  note t = cmd_photo_clamps [of env0 args_count_ten 10 "PInt 10" 10 0 world0]
  note u = cmd_photo_clamps [of env0 args_count_inf 0 "PFloat PosInf" 0 0 world0]
  from t a g have m: "min_int_arg env0 args_count_ten ''count'' 1 5 = Inr 5"
    by simp
  from t m ok z have c: "captures (snd (cmd_photo env0 args_count_ten world0)) = 5"
    by simp
  from u i have f: "fst (cmd_photo env0 args_count_inf world0)
       = Returns [(''success'', PBool False),
                  (''error'', PStr ''cannot convert float infinity to integer'')]"
    by simp
  from g a m z c i f show ?thesis by simp
qed

text \<open>
  The claim as stated fails for \<^verbatim>\<open>count = inf\<close>, which exceeds 5 and which
  \<^verbatim>\<open>json.loads\<close> yields for the arguments \<^verbatim>\<open>{"count": 1e400}\<close>: the handler's
  count is not 5, because \<^verbatim>\<open>int()\<close> raises, and the handler reports a failure
  without opening the camera.
\<close>

theorem cmd_photo_infinite_counterexample:
  "py_get args_count_inf ''count'' (PInt 1) = Inr (PFloat PosInf)
   \<and> min_int_arg env0 args_count_inf ''count'' 1 5
       = Inl (OverflowError ''cannot convert float infinity to integer'')
   \<and> min_int_arg env0 args_count_inf ''count'' 1 5 \<noteq> Inr 5
   \<and> cmd_photo env0 args_count_inf world0
       = (Returns [(''success'', PBool False),
                   (''error'', PStr ''cannot convert float infinity to integer'')], world0)
   \<and> effects (snd (cmd_photo env0 args_count_inf world0)) = []"
  by (simp add: cmd_photo_def try_except_def cmd_photo_body_def min_int_arg_def int_arg_def
      py_get_def py_int_def args_count_inf_def failure_def world0_def)

subsection \<open>Background threads\<close>

text \<open>
  C9. When the loop of a background thread ends, by the duration or by the
  \<^verbatim>\<open>break\<close> on a cleared slot, the thread writes \<^verbatim>\<open>False\<close> to its slot whatever
  the slot holds: a step of \<^verbatim>\<open>play_alarm\<close> or \<^verbatim>\<open>find_loop\<close> that finishes the
  thread leaves the slot \<^verbatim>\<open>False\<close>, and once the duration has elapsed the step
  finishes the thread even though the slot is \<^verbatim>\<open>True\<close>. So the exit of a stale
  instance clears the flag a newer instance of the same kind has set.
\<close>

theorem task_exit_clears_slot:
  assumes "\<not> finished t"
  shows "(finished (fst (play_alarm_step now t w))
            \<longrightarrow> running_commands (snd (play_alarm_step now t w)) ''alarm'' = Some False)
       \<and> (finished (fst (find_loop_step e now now2 t w))
            \<longrightarrow> running_commands (snd (find_loop_step e now now2 t w)) ''findme'' = Some False)
       \<and> (start t = Some s \<and> (\<not> now - s < real_of_int (duration t) \<or> \<not> slot_active w ''alarm'')
            \<longrightarrow> finished (fst (play_alarm_step now t w)))
       \<and> (start t = Some s \<and> (\<not> now - s < real_of_int (duration t) \<or> \<not> slot_active w ''findme'')
            \<longrightarrow> finished (fst (find_loop_step e now now2 t w)))"
  using assms
  by (auto simp: play_alarm_step_def find_loop_step_def set_slot_def Let_def cmd_location_def
      try_except_def cmd_location_body_def split: option.splits if_splits sum.splits)

theorem task_exit_clears_slot_witness:
  "threads world_alarm_restarted ! 0 = stale_alarm
   \<and> slot_active world_alarm_restarted ''alarm''
   \<and> finished (fst (play_alarm_step 2 stale_alarm world_alarm_restarted))
   \<and> running_commands (snd (play_alarm_step 2 stale_alarm world_alarm_restarted)) ''alarm''
       = Some False
   \<and> running_commands (run_thread env0 0 2 2 world_alarm_restarted) ''alarm'' = Some False
   \<and> \<not> finished (threads (run_thread env0 0 2 2 world_alarm_restarted) ! 1)"
proof -
  have w: "world_alarm_restarted =
      world0\<lparr>running_commands := [''alarm'' \<mapsto> True],
             threads := [stale_alarm,
                         \<lparr>kind = AlarmTask, duration = 10, start = None, finished = False\<rparr>]\<rparr>"
    by (simp add: world_alarm_restarted_def cmd_alarm_def try_except_def cmd_alarm_body_def
        min_int_arg_def int_arg_def py_get_def
        py_int_def spawn_def set_slot_def run_thread_def play_alarm_step_def world0_def
        stale_alarm_def)
  have nf: "\<not> finished stale_alarm"
    by (simp add: stale_alarm_def)
  have st: "start stale_alarm = Some 0 \<and>
      (\<not> 2 - 0 < real_of_int (duration stale_alarm) \<or> \<not> slot_active world_alarm_restarted ''alarm'')"
    by (simp add: stale_alarm_def)
  note t = task_exit_clears_slot [OF nf, of 2 world_alarm_restarted env0 2 0]
  have f: "finished (fst (play_alarm_step 2 stale_alarm world_alarm_restarted))"
    using t st by blast
  then have c: "running_commands (snd (play_alarm_step 2 stale_alarm world_alarm_restarted)) ''alarm''
       = Some False"
    using t by blast
  have a: "slot_active world_alarm_restarted ''alarm''"
    by (simp add: w slot_active_def)
  have i: "threads world_alarm_restarted ! 0 = stale_alarm"
    by (simp add: w)
  have r: "run_thread env0 0 2 2 world_alarm_restarted =
      world0\<lparr>running_commands := [''alarm'' \<mapsto> False],
             threads := [stale_alarm\<lparr>finished := True\<rparr>,
                         \<lparr>kind = AlarmTask, duration = 10, start = None, finished = False\<rparr>]\<rparr>"
    by (simp add: w run_thread_def play_alarm_step_def stale_alarm_def set_slot_def world0_def)
  from f c a i show ?thesis
    by (simp add: r)
qed

subsection \<open>The startup sweep\<close>

lemma untouched_steady: "untouched w' = untouched w \<Longrightarrow> steady w' = steady w"
  by (simp add: untouched_def)

lemma steady_log_error [simp]: "steady (log_error m w) = steady w"
  by (simp add: steady_def queries_def mode_logs_def log_error_def mode_message_defs)

lemma steady_log_info:
  "m \<noteq> ''Falling back to polling mode...'' \<Longrightarrow>
   m \<noteq> ''Realtime not available, using polling mode'' \<Longrightarrow>
   m \<noteq> ''Using polling mode (fallback)...'' \<Longrightarrow> steady (log_info m w) = steady w"
  by (simp add: steady_def queries_def mode_logs_def log_info_def mode_message_defs)

lemma steady_update_command_result [simp]: "steady (update_command_result e i r w) = steady w"
  by (simp add: steady_def queries_def mode_logs_def update_command_result_def Let_def
      log_error_def mode_message_defs split: option.splits)

lemma steady_handlers: "handlers n = Some h \<Longrightarrow> steady (snd (h e a w)) = steady w"
  by (rule untouched_steady) (rule handlers_untouched)

lemma untouched_process_command_skip:
  "\<not> dispatchable c \<Longrightarrow> untouched (process_command e hs c w) = untouched w"
  by (auto simp: dispatchable_def process_command_def process_command_try_def
      split: option.splits pyval.splits)

lemma process_command_shape:
  assumes "dispatchable c"
  shows "\<exists>i r w2 m. map_of c ''id'' = Some i
           \<and> process_command e handlers c w
               = log_info (''Command '' @ m) (update_command_result e i r w2)
           \<and> untouched w2 = untouched w"
proof -
  from assms obtain i s where i: "map_of c ''id'' = Some i"
    and s: "map_of c ''command'' = Some (PStr s)"
    by (auto simp: dispatchable_def split: option.splits pyval.splits)
  let ?a = "normalize_args e (dict_get_default c ''args'' (PDict []))"
  let ?w1 = "log_info (''Processing command: '' @ py_lower e s) w"
  have w1: "untouched ?w1 = untouched w"
    by (simp add: untouched_log_info)
  show ?thesis
  proof (cases "handlers (py_lower e s)")
    case None
    have "process_command e handlers c w =
        log_info (''Command '' @ py_lower e s @ '' completed: ''
                    @ py_str e (dict_get (failure (''Unknown command: '' @ py_lower e s)) ''success''))
          (update_command_result e i (failure (''Unknown command: '' @ py_lower e s)) ?w1)"
      using i s None by (simp add: process_command_def process_command_try_def Let_def)
    with i w1 show ?thesis by blast
  next
    case (Some h)
    obtain r where r: "fst (h e ?a ?w1) = Returns r"
      using handlers_return [OF Some] by blast
    define w2 where "w2 = snd (h e ?a ?w1)"
    have call: "h e ?a ?w1 = (Returns r, w2)"
      using r by (simp add: prod_eq_iff w2_def)
    have "untouched w2 = untouched ?w1"
      unfolding w2_def by (rule handlers_untouched [OF Some])
    with w1 have u: "untouched w2 = untouched w"
      by simp
    have "process_command_try e handlers c w =
           (None, log_info (''Command '' @ py_lower e s @ '' completed: ''
                              @ py_str e (dict_get r ''success''))
                    (update_command_result e i r w2))"
      by (rule process_command_returns [where hs = handlers and h = h, OF i s Some call])
    then have "process_command e handlers c w =
        log_info (''Command '' @ py_lower e s @ '' completed: '' @ py_str e (dict_get r ''success''))
          (update_command_result e i r w2)"
      by (simp add: process_command_def)
    with i u show ?thesis by blast
  qed
qed

lemma steady_process_command [simp]: "steady (process_command e handlers c w) = steady w"
proof (cases "dispatchable c")
  case False
  then show ?thesis
    by (rule untouched_steady [OF untouched_process_command_skip])
next
  case True
  from process_command_shape [OF True, of e w] obtain i r w2 m
    where p: "process_command e handlers c w
               = log_info (''Command '' @ m) (update_command_result e i r w2)"
      and u: "untouched w2 = untouched w"
    by blast
  have "steady (log_info (''Command '' @ m) (update_command_result e i r w2)) = steady w2"
    by (simp add: steady_log_info)
  with p untouched_steady [OF u] show ?thesis by simp
qed

lemma commands_log_info [simp]: "commands (log_info m w) = commands w"
  by (simp add: log_info_def)


lemma map_of_complete_row:
  "k \<notin> {''status'', ''result'', ''completed_at''} \<Longrightarrow>
   map_of (complete_row e n i r x) k = map_of x k"
  by (simp add: complete_row_def map_of_dict_set)


lemma dispatchable_complete_row [simp]:
  "dispatchable (complete_row e n i r x) = dispatchable x"
  by (simp add: dispatchable_def map_of_complete_row)


lemma id_complete_row [simp]: "map_of (complete_row e n i r x) ''id'' = map_of x ''id''"
  by (simp add: map_of_complete_row)

lemma device_id_process_command [simp]:
  "device_id (process_command e handlers c w) = device_id w"
  using steady_process_command [of e c w] by (simp add: steady_def)





lemma steady_dispatch_all [simp]:
  "steady (foldl (\<lambda>v c. process_command e handlers c v) v todo) = steady v"
  by (induction todo arbitrary: v) simp_all







lemma queries_from_steady: "steady w' = steady w \<Longrightarrow> queries w' = queries w"
  by (simp add: steady_def)








subsection \<open>The fallback to polling\<close>

lemma untouched_threads [simp]: "untouched (w\<lparr>threads := ts\<rparr>) = untouched w"
  by (simp add: untouched_def steady_def queries_def mode_logs_def completions_def)


lemma untouched_play_alarm_step [simp]: "untouched (snd (play_alarm_step now t w)) = untouched w"
  by (simp add: play_alarm_step_def split: option.splits)

lemma untouched_find_loop_step [simp]:
  "untouched (snd (find_loop_step e now now2 t w)) = untouched w"
  by (simp add: find_loop_step_def Let_def cmd_location_def try_except_def cmd_location_body_def
      split: option.splits sum.splits)



lemma mode_logs_poll_iteration [simp]: "mode_logs (poll_iteration e w) = mode_logs w"
proof -
  let ?w1 = "w\<lparr>requests := requests w @ [SelectPending (device_id w)]\<rparr>"
  let ?w2 = "foldl (\<lambda>v command. process_command e handlers command v) ?w1 (select_pending ?w1)"
  have "steady ?w2 = steady ?w1" by simp
  then have 2: "mode_logs ?w2 = mode_logs w"
    by (simp add: steady_def mode_logs_def)
  have 3: "mode_logs (v\<lparr>requests := rs\<rparr>) = mode_logs v" for v rs
    by (simp add: mode_logs_def)
  have 4: "mode_logs (log_error m v) = mode_logs v" for m v
    by (simp add: mode_logs_def log_error_def mode_message_defs)
  show ?thesis
    by (simp add: poll_iteration_def Let_def 2 3 4 split: option.splits)
qed

lemma mode_logs_realtime_banner [simp]: "mode_logs (realtime_banner w) = mode_logs w"
  by (simp add: realtime_banner_def mode_logs_def log_info_def mode_message_defs)




















end
